theory Spec2Isabelle
  imports Complex_Main "HOL-Library.Sublist"
begin

section \<open>Text primitives of the host language\<close>

text \<open>
  The tutor component (\<^verbatim>\<open>src/app/tutor/tutor.ts\<close>) works on JavaScript strings.
  A text is modelled as a \<^typ>\<open>string\<close>; each \<^typ>\<open>char\<close> stands for one code
  unit in the range U+0000 .. U+00FF (ASCII and Latin-1), read through \<^const>\<open>of_char\<close>.
  The character classes below are the ones of the regular expressions and string methods
  the component calls, restricted to that range.
\<close>

definition isWordChar :: "char \<Rightarrow> bool" where
  \<comment> \<open>the class \<^verbatim>\<open>\w\<close>: \<^verbatim>\<open>[A-Za-z0-9_]\<close>\<close>
  "isWordChar c =
     (let n = (of_char c :: nat)
      in (48 \<le> n \<and> n \<le> 57) \<or> (65 \<le> n \<and> n \<le> 90) \<or> n = 95 \<or> (97 \<le> n \<and> n \<le> 122))"

definition isSpace :: "char \<Rightarrow> bool" where
  \<comment> \<open>the class \<^verbatim>\<open>\s\<close>, which is also what \<^verbatim>\<open>trim\<close> strips: tab, line feed, vertical tab,
      form feed, carriage return, space and the no-break space U+00A0\<close>
  "isSpace c = (of_char c \<in> {9, 10, 11, 12, 13, 32, 160 :: nat})"

definition toLowerChar :: "char \<Rightarrow> char" where
  \<comment> \<open>\<^verbatim>\<open>toLowerCase\<close> on one code unit: \<^verbatim>\<open>A-Z\<close> and the Latin-1 capitals U+00C0 .. U+00DE
      (without the multiplication sign U+00D7) move up by 32\<close>
  "toLowerChar c =
     (let n = (of_char c :: nat)
      in if (65 \<le> n \<and> n \<le> 90) \<or> (192 \<le> n \<and> n \<le> 222 \<and> n \<noteq> 215) then char_of (n + 32) else c)"

definition toLowerCase :: "string \<Rightarrow> string" where
  "toLowerCase s = map toLowerChar s"

definition canonicalize :: "char \<Rightarrow> char" where
  \<comment> \<open>the case folding of a regular expression with the \<^verbatim>\<open>i\<close> flag: the upper-case form
      of a code unit when that is again one code unit of the range\<close>
  "canonicalize c =
     (let n = (of_char c :: nat)
      in if (97 \<le> n \<and> n \<le> 122) \<or> (224 \<le> n \<and> n \<le> 254 \<and> n \<noteq> 247) then char_of (n - 32) else c)"

fun startsWith :: "string \<Rightarrow> string \<Rightarrow> bool" where
  "startsWith s [] = True"
| "startsWith [] (p # ps) = False"
| "startsWith (c # cs) (p # ps) = (c = p \<and> startsWith cs ps)"

fun includes_str :: "string \<Rightarrow> string \<Rightarrow> bool" where
  \<comment> \<open>\<^verbatim>\<open>s.includes(p)\<close>: \<open>p\<close> occurs in \<open>s\<close> as a contiguous substring\<close>
  "includes_str [] p = (p = [])"
| "includes_str (c # cs) p = (startsWith (c # cs) p \<or> includes_str cs p)"

definition trim :: "string \<Rightarrow> string" where
  "trim s = rev (dropWhile isSpace (rev (dropWhile isSpace s)))"

function splitWhitespace :: "string \<Rightarrow> string \<Rightarrow> string list" where
  \<comment> \<open>\<^verbatim>\<open>s.split(/\s+/)\<close>; the first argument is the piece collected so far. Every maximal
      run of whitespace closes a piece, also at either end of the text, where the piece is
      empty; the empty text gives the one piece \<^verbatim>\<open>""\<close>.\<close>
  "splitWhitespace cur [] = [cur]"
| "splitWhitespace cur (c # cs) =
     (if isSpace c then cur # splitWhitespace [] (dropWhile isSpace cs)
      else splitWhitespace (cur @ [c]) cs)"
  by pat_completeness auto
termination
  by (relation "measure (\<lambda>(cur, s). length s)")
     (auto simp: le_imp_less_Suc length_dropWhile_le)

fun splitOnChar :: "char \<Rightarrow> string \<Rightarrow> string \<Rightarrow> string list" where
  \<comment> \<open>\<^verbatim>\<open>s.split(sep)\<close> for a separator of one character: each occurrence closes a piece\<close>
  "splitOnChar sep cur [] = [cur]"
| "splitOnChar sep cur (c # cs) =
     (if c = sep then cur # splitOnChar sep [] cs else splitOnChar sep (cur @ [c]) cs)"

definition wordBoundary :: "char option \<Rightarrow> string \<Rightarrow> bool" where
  \<comment> \<open>the assertion \<^verbatim>\<open>\b\<close> at a position, given the character before it (none at the start
      of the text) and the rest of the text from it: exactly one side is a word character\<close>
  "wordBoundary prev rest =
     ((case prev of None \<Rightarrow> False | Some p \<Rightarrow> isWordChar p)
      \<noteq> (case rest of [] \<Rightarrow> False | c # _ \<Rightarrow> isWordChar c))"

section \<open>Assessment engine\<close>

subsection \<open>Pronunciation score\<close>

text \<open>
  \<^verbatim>\<open>text.match(/\b\w{8,}\b/g)\<close>. At a position the pattern matches when the position is
  a word boundary and the maximal run of word characters from it has at least eight
  characters: the greedy \<^verbatim>\<open>\w{8,}\<close> takes the whole run, and giving characters back would
  end the match between two word characters, where the closing \<^verbatim>\<open>\b\<close> fails. The global
  search resumes behind each match and yields \<^verbatim>\<open>null\<close> when there is none.
\<close>

definition complexWordAt :: "char option \<Rightarrow> string \<Rightarrow> string option" where
  "complexWordAt prev s =
     (let run = takeWhile isWordChar s
      in if wordBoundary prev s \<and> 8 \<le> length run
            \<and> wordBoundary (Some (last run)) (drop (length run) s)
         then Some run else None)"

function matchComplexWords :: "char option \<Rightarrow> string \<Rightarrow> string list" where
  "matchComplexWords prev [] = []"
| "matchComplexWords prev (c # cs) =
     (case complexWordAt prev (c # cs) of
        Some w \<Rightarrow> w # matchComplexWords (Some (last w)) (drop (length w) (c # cs))
      | None \<Rightarrow> matchComplexWords (Some c) cs)"
  by pat_completeness auto
termination
  by (relation "measure (\<lambda>(prev, s). length s)")
     (auto simp: complexWordAt_def Let_def split: if_splits)

definition matchComplex :: "string \<Rightarrow> string list option" where
  "matchComplex s =
     (let found = matchComplexWords None s in if found = [] then None else Some found)"

definition challengingSounds :: "string list" where
  "challengingSounds = [''th'', ''r'', ''l'', ''v'', ''w'']"

definition assessPronunciation :: "string \<Rightarrow> int" where
  \<comment> \<open>every summand is an integer, so \<^verbatim>\<open>Math.round\<close> leaves the score as it is\<close>
  "assessPronunciation text =
     (let score = 70;
          wordCount = length (splitWhitespace [] (trim text));
          score = (if wordCount > 5 then score + 10 else score);
          score = (if wordCount > 10 then score + 10 else score);
          complexWords = matchComplex text;
          score = (case complexWords of
                     None \<Rightarrow> score
                   | Some ws \<Rightarrow> score + min (int (length ws) * 2) 10);
          score = (if includes_str text '','' then score + 5 else score);
          score = (if includes_str text ''.'' then score + 5 else score);
          score = (if wordCount < 3 then score - 20 else score);
          found = filter (\<lambda>s. includes_str (toLowerCase text) s) challengingSounds;
          score = (if length found \<ge> 2 then score + 5 else score)
      in max 0 (min 100 score))"

definition generatePronunciationFeedback :: "string \<Rightarrow> string" where
  "generatePronunciationFeedback text =
     (let score = assessPronunciation text
      in if score \<ge> 90 then ''Excellent pronunciation! Your speech is very clear and natural.''
         else if score \<ge> 80 then ''Great job! Your pronunciation is good with minor improvements possible.''
         else if score \<ge> 70 then ''Good effort! Focus on clarity and word stress.''
         else if score \<ge> 60 then ''Keep practicing! Try to speak more slowly and clearly.''
         else ''Don't worry! Practice basic sounds and short phrases first.'')"

subsection \<open>Grammar correction\<close>

definition corrections :: "(string \<times> string) list" where
  \<comment> \<open>the table in the order of its entries, which is the order \<^verbatim>\<open>Object.entries\<close> walks\<close>
  "corrections =
     [(''i am go'', ''I am going''),
      (''i have went'', ''I have gone''),
      (''she go'', ''she goes''),
      (''he go'', ''he goes''),
      (''they goes'', ''they go''),
      (''i doesn't'', ''I don't''),
      (''he don't'', ''he doesn't''),
      (''she don't'', ''she doesn't''),
      (''yesterday i go'', ''yesterday I went''),
      (''tomorrow i go'', ''tomorrow I will go''),
      (''i didn't went'', ''I didn't go'')]"

fun startsWithIgnoreCase :: "string \<Rightarrow> string \<Rightarrow> bool" where
  "startsWithIgnoreCase s [] = True"
| "startsWithIgnoreCase [] (p # ps) = False"
| "startsWithIgnoreCase (c # cs) (p # ps) =
     (canonicalize c = canonicalize p \<and> startsWithIgnoreCase cs ps)"

text \<open>
  The two agreement rules have one shape, \<^verbatim>\<open>/\b(s1|s2|...)\s+verb\b/i\<close>. At a position
  the pattern matches when the position is a word boundary, one of the subjects starts
  there, at least one whitespace character follows, the verb starts behind the whole run
  of whitespace (the verb does not start with whitespace, so \<^verbatim>\<open>\s+\<close> cannot stop
  earlier) and a word boundary follows the verb. \<^verbatim>\<open>test\<close> tries every position.
\<close>

definition agreementAt :: "string list \<Rightarrow> string \<Rightarrow> char option \<Rightarrow> string \<Rightarrow> bool" where
  "agreementAt subjects verb prev s =
     (wordBoundary prev s \<and>
      list_ex (\<lambda>subject.
         startsWithIgnoreCase s subject \<and>
         (case drop (length subject) s of
            [] \<Rightarrow> False
          | c # cs \<Rightarrow>
              isSpace c \<and>
              (let rest = dropWhile isSpace cs
               in startsWithIgnoreCase rest verb \<and>
                  wordBoundary (Some (last (take (length verb) rest)))
                    (drop (length verb) rest)))) subjects)"

fun agreementTest :: "string list \<Rightarrow> string \<Rightarrow> char option \<Rightarrow> string \<Rightarrow> bool" where
  "agreementTest subjects verb prev [] = agreementAt subjects verb prev []"
| "agreementTest subjects verb prev (c # cs) =
     (agreementAt subjects verb prev (c # cs) \<or> agreementTest subjects verb (Some c) cs)"

definition generateCorrection :: "string \<Rightarrow> string option" where
  "generateCorrection text =
     (let lower = toLowerCase text
      in case find (\<lambda>(bad, good). includes_str lower bad) corrections of
           Some (bad, good) \<Rightarrow> Some (''Did you mean: '' @ [CHR 0x27] @ good @ [CHR 0x27] @ ''?'')
         | None \<Rightarrow>
             if agreementTest [''i'', ''you'', ''we'', ''they''] ''goes'' None lower
             then Some ''Remember: Use 'go' with I, you, we, they. Use 'goes' with he, she, it.''
             else if agreementTest [''he'', ''she'', ''it''] ''go'' None lower
             then Some ''Remember: Use 'goes' with he, she, it. Use 'go' with I, you, we, they.''
             else None)"

section \<open>Data model\<close>

text \<open>
  The records below have the fields of the object literals the component builds
  (\<^verbatim>\<open>startNewConversation\<close>, \<^verbatim>\<open>processUserSpeech\<close>, \<^verbatim>\<open>addAIMessage\<close>). A field that
  may be \<^verbatim>\<open>null\<close> or absent is an \<^typ>\<open>'a option\<close>. The fields \<^verbatim>\<open>id\<close>, \<^verbatim>\<open>type\<close> and
  \<^verbatim>\<open>text\<close> carry a suffix, their plain names being taken. Audio recordings are kept by
  their URL; the operations modelled here never read or write one.
\<close>

record message =
  id_m :: string
  type_m :: string
  text_m :: string
  timestamp :: string
  correction :: "string option"
  pronunciationScore :: "int option"
  pronunciationFeedback :: "string option"
  audioUrl :: "string option"

record conversation =
  id_c :: string
  startTime :: string
  endTime :: "string option"
  topic :: string
  difficulty :: string
  messages :: "message list"
  audioRecordings :: "string list"

text \<open>
  \<^verbatim>\<open>localStorage\<close> holds strings under the two keys \<^verbatim>\<open>conversationHistory\<close> and
  \<^verbatim>\<open>currentConversation\<close>. What the component can tell of a stored string is whether
  \<^verbatim>\<open>getItem\<close> gives a falsy answer (\<^verbatim>\<open>null\<close> for a missing key, or the empty string),
  whether \<^verbatim>\<open>JSON.parse\<close> throws on it, and the value it parses to otherwise.

  The stored history is written by the component as an array of conversations. A stored
  string may also parse to a value that is no array (a number, a boolean, \<^verbatim>\<open>null\<close>, an
  object): \<^verbatim>\<open>loadHistory\<close> assigns it all the same, and the spread
  \<^verbatim>\<open>[...this.conversationHistory]\<close> at the end of its block throws a \<^verbatim>\<open>TypeError\<close>. An array
  is taken to be an array of conversations, and a stored active conversation that parses
  to be a conversation; a history that parses to a string literal, which can be spread,
  is left out.
\<close>

datatype 'a item = Absent | Unparseable | Parses 'a

datatype parsed_history = Conversations "conversation list" | NotIterable

record storage =
  historyItem :: "parsed_history item"
  currentItem :: "conversation item"

record tutor =
  currentMode :: string
  isListening :: bool
  isSpeaking :: bool
  isConversationActive :: bool
  conversationStatus :: string
  currentConversation :: "conversation option"
  conversationHistory :: "conversation list"
  filteredHistory :: "conversation list"
  selectedHistoryConversation :: "conversation option"
  searchQuery :: string
  selectedTopic :: string
  errorMessage :: string
  successMessage :: string
  recognition :: bool  \<comment> \<open>a speech recogniser has been created\<close>
  synthesis :: bool  \<comment> \<open>\<^verbatim>\<open>window.speechSynthesis\<close> exists\<close>
  recording :: bool  \<comment> \<open>a media recorder exists and its state is \<^verbatim>\<open>recording\<close>\<close>
  localStorage :: storage

text \<open>
  What the surroundings answer during one call of a method: the clock, the random number
  generator, and whether a call into the browser throws. A call is short, so every read
  of the clock within it gives the same instant. The timers a method starts
  (\<^verbatim>\<open>setTimeout\<close>) and the events of the speech devices run after the method has
  returned; they are not part of its model.
\<close>

datatype exn = SecurityError | SyntaxError | TypeError

record env =
  isoNow :: string  \<comment> \<open>\<^verbatim>\<open>new Date().toISOString()\<close>\<close>
  msNow :: string  \<comment> \<open>\<^verbatim>\<open>Date.now().toString()\<close>\<close>
  random :: rat  \<comment> \<open>\<^verbatim>\<open>Math.random()\<close>, a number in \<open>[0, 1)\<close>\<close>
  getItemThrows :: bool
  setItemThrows :: bool
  removeItemThrows :: bool
  deviceThrows :: bool
  errorText :: string  \<comment> \<open>\<^verbatim>\<open>err?.message || err\<close> of the exception caught\<close>

section \<open>Response generator\<close>

definition greetings :: "(string \<times> string) list" where
  "greetings =
     [(''daily-life'', ''Hello! Let's talk about daily life. How was your day today?''),
      (''work'', ''Hi there! Let's discuss work and business. What do you do for a living?''),
      (''travel'', ''Greetings! Ready to talk about travel? What's the most interesting place you've visited?''),
      (''food'', ''Hello! Let's chat about food. What's your favorite cuisine?''),
      (''hobbies'', ''Hi! What are your hobbies? I'd love to hear about what you enjoy doing in your free time.''),
      (''random'', ''Hey! Let's have a casual chat. What's on your mind today?'')]"

definition generateGreeting :: "tutor \<Rightarrow> string" where
  "generateGreeting st =
     (case map_of greetings (selectedTopic st) of
        Some g \<Rightarrow> g
      | None \<Rightarrow> ''Hello! Let's practice English. What would you like to talk about?'')"

definition emDash :: string where
  \<comment> \<open>the dash U+2014 of one canned sentence lies outside the range of \<^typ>\<open>char\<close>; it is
      written as the three bytes of its UTF-8 form\<close>
  "emDash = [CHR 0xE2, CHR 0x80, CHR 0x94]"

definition randomPool :: "string list" where
  "randomPool =
     [''Tell me more!'',
      ''That's interesting '' @ emDash @ '' why do you think that happened?'',
      ''Could you expand on that?'']"

definition responses :: "(string \<times> string list) list" where
  "responses =
     [(''daily-life'',
        [''That's interesting! Tell me more about your daily routine.'',
         ''How do you usually spend your evenings?'',
         ''What do you like to do on weekends?'',
         ''That sounds like a busy day! Do you get enough time to relax?'']),
      (''work'',
        [''That sounds fascinating! What do you enjoy most about your job?'',
         ''How long have you been working in this field?'',
         ''What skills are most important for your profession?'',
         ''That's impressive! What challenges do you face at work?'']),
      (''travel'',
        [''Wow, that must have been an amazing experience! What did you like most?'',
         ''Would you like to visit there again? Why?'',
         ''What other places are on your travel wishlist?'',
         ''How did you plan your trip? Any tips for others?'']),
      (''food'',
        [''That sounds delicious! How often do you eat that?'',
         ''Can you cook it yourself? What's the recipe?'',
         ''What other dishes do you enjoy from that cuisine?'',
         ''Have you tried making it at home? How did it turn out?'']),
      (''hobbies'',
        [''That's a great hobby! How did you get started?'',
         ''How much time do you spend on it?'',
         ''What equipment or tools do you need?'',
         ''Have you met others who share this interest?'']),
      (''random'', randomPool)]"

definition pick :: "env \<Rightarrow> string list \<Rightarrow> string option" where
  \<comment> \<open>\<^verbatim>\<open>pool[Math.floor(Math.random() * pool.length)]\<close>; an index outside the pool reads
      \<^verbatim>\<open>undefined\<close>, here \<^const>\<open>None\<close>\<close>
  "pick e pool =
     (let i = \<lfloor>random e * of_nat (length pool)\<rfloor>
      in if 0 \<le> i \<and> i < int (length pool) then Some (pool ! nat i) else None)"

definition toText :: "string option \<Rightarrow> string" where
  \<comment> \<open>what string concatenation makes of a value that may be \<^verbatim>\<open>undefined\<close>\<close>
  "toText v = (case v of None \<Rightarrow> ''undefined'' | Some s \<Rightarrow> s)"

definition generateAIResponse :: "env \<Rightarrow> tutor \<Rightarrow> string \<Rightarrow> string option" where
  "generateAIResponse e st userText =
     (let topicResponses =
            (case map_of responses (selectedTopic st) of Some pool \<Rightarrow> pool | None \<Rightarrow> randomPool);
          randomResponse = pick e topicResponses
      in if includes_str userText ''?''
         then Some (''That's a good question! '' @ toText randomResponse)
         else if length (splitOnChar (CHR '' '') [] userText) < 5
         then Some (''I see. Could you tell me more? '' @ toText randomResponse)
         else randomResponse)"

section \<open>Conversation store and lifecycle\<close>

definition updateStatus :: "tutor \<Rightarrow> tutor" where
  "updateStatus st =
     (if isListening st then st\<lparr>conversationStatus := ''listening''\<rparr>
      else if isSpeaking st then st\<lparr>conversationStatus := ''speaking''\<rparr>
      else st\<lparr>conversationStatus := ''idle''\<rparr>)"

definition showError :: "string \<Rightarrow> tutor \<Rightarrow> tutor" where
  "showError msg st = st\<lparr>errorMessage := msg\<rparr>"

definition showSuccess :: "string \<Rightarrow> tutor \<Rightarrow> tutor" where
  "showSuccess msg st = st\<lparr>successMessage := msg\<rparr>"

definition setCurrentItem :: "conversation item \<Rightarrow> tutor \<Rightarrow> tutor" where
  "setCurrentItem v st = st\<lparr>localStorage := (localStorage st)\<lparr>currentItem := v\<rparr>\<rparr>"

definition setHistoryItem :: "parsed_history item \<Rightarrow> tutor \<Rightarrow> tutor" where
  "setHistoryItem v st = st\<lparr>localStorage := (localStorage st)\<lparr>historyItem := v\<rparr>\<rparr>"

definition saveCurrentConversation :: "env \<Rightarrow> tutor \<Rightarrow> tutor" where
  \<comment> \<open>a failing write is logged and nothing else\<close>
  "saveCurrentConversation e st =
     (case currentConversation st of
        None \<Rightarrow> st
      | Some c \<Rightarrow> if setItemThrows e then st else setCurrentItem (Parses c) st)"

definition stopListening :: "env \<Rightarrow> tutor \<Rightarrow> tutor" where
  \<comment> \<open>a device that throws on \<^verbatim>\<open>stop\<close> leaves the rest of the block undone\<close>
  "stopListening e st =
     (if ((recognition st \<and> isListening st) \<or> recording st) \<and> deviceThrows e then st
      else updateStatus (st\<lparr>isListening := False, recording := False\<rparr>))"

definition speakResponse :: "env \<Rightarrow> string \<Rightarrow> tutor \<Rightarrow> tutor" where
  "speakResponse e txt st =
     (if \<not> synthesis st then st
      else if deviceThrows e then updateStatus (st\<lparr>isSpeaking := False\<rparr>)
      else st)"

definition aiMessage :: "env \<Rightarrow> string \<Rightarrow> message" where
  "aiMessage e txt =
     \<lparr>id_m = msNow e, type_m = ''ai'', text_m = txt, timestamp = isoNow e,
      correction = None, pronunciationScore = None, pronunciationFeedback = None,
      audioUrl = None\<rparr>"

definition pushMessage :: "message \<Rightarrow> conversation \<Rightarrow> conversation" where
  "pushMessage m c = c\<lparr>messages := messages c @ [m]\<rparr>"

definition addAIMessage :: "env \<Rightarrow> string \<Rightarrow> tutor \<Rightarrow> tutor" where
  \<comment> \<open>without a current conversation the \<^verbatim>\<open>push\<close> throws and the handler reports it\<close>
  "addAIMessage e txt st =
     (case currentConversation st of
        None \<Rightarrow> showError (''Failed to generate AI response: '' @ errorText e) st
      | Some c \<Rightarrow>
          speakResponse e txt
            (saveCurrentConversation e
               (st\<lparr>currentConversation := Some (pushMessage (aiMessage e txt) c)\<rparr>)))"

definition userMessage :: "env \<Rightarrow> string \<Rightarrow> message" where
  "userMessage e transcript =
     \<lparr>id_m = msNow e, type_m = ''user'', text_m = transcript, timestamp = isoNow e,
      correction = generateCorrection transcript,
      pronunciationScore = Some (assessPronunciation transcript),
      pronunciationFeedback = Some (generatePronunciationFeedback transcript),
      audioUrl = None\<rparr>"

definition processUserSpeech :: "env \<Rightarrow> string \<Rightarrow> tutor \<Rightarrow> tutor" where
  \<comment> \<open>the reply of the tutor is produced by a timer 800 ms later\<close>
  "processUserSpeech e transcript st =
     (case currentConversation st of
        None \<Rightarrow> showError (''Failed to process your speech: '' @ errorText e) st
      | Some c \<Rightarrow>
          stopListening e
            (saveCurrentConversation e
               (st\<lparr>currentConversation := Some (pushMessage (userMessage e transcript) c)\<rparr>)))"

definition newConversation :: "env \<Rightarrow> tutor \<Rightarrow> conversation" where
  "newConversation e st =
     \<lparr>id_c = msNow e, startTime = isoNow e, endTime = None, topic = selectedTopic st,
      difficulty = ''beginner'', messages = [], audioRecordings = []\<rparr>"

definition startNewConversation :: "env \<Rightarrow> tutor \<Rightarrow> tutor" where
  "startNewConversation e st =
     (let st = st\<lparr>currentConversation := Some (newConversation e st),
                  isConversationActive := True,
                  selectedHistoryConversation := None\<rparr>;
          greeting = generateGreeting st;
          st = addAIMessage e greeting st
      in showSuccess (''New conversation started! Topic: '' @ selectedTopic st) st)"

definition orNow :: "string option \<Rightarrow> string \<Rightarrow> string option" where
  \<comment> \<open>\<^verbatim>\<open>endTime || now\<close>: \<^verbatim>\<open>null\<close> and the empty string are falsy\<close>
  "orNow t now = (case t of None \<Rightarrow> Some now | Some s \<Rightarrow> if s = [] then Some now else Some s)"

definition saveConversation :: "env \<Rightarrow> conversation \<Rightarrow> tutor \<Rightarrow> tutor" where
  \<comment> \<open>the history in memory is updated before any write to the storage can throw\<close>
  "saveConversation e conv st =
     (let conv = conv\<lparr>endTime := orNow (endTime conv) (isoNow e)\<rparr>;
          history = conv # conversationHistory st;
          history = (if length history > 50 then take 50 history else history);
          st = st\<lparr>conversationHistory := history\<rparr>
      in if setItemThrows e then showError (''Failed to save conversation: '' @ errorText e) st
         else let st = setHistoryItem (Parses (Conversations history)) st
              in if removeItemThrows e
                 then showError (''Failed to save conversation: '' @ errorText e) st
                 else (setCurrentItem Absent st)\<lparr>filteredHistory := history\<rparr>)"

definition endConversation :: "env \<Rightarrow> tutor \<Rightarrow> tutor" where
  "endConversation e st =
     (let st = (case currentConversation st of
                  None \<Rightarrow> st
                | Some c \<Rightarrow>
                    if length (messages c) > 0
                    then let c = c\<lparr>endTime := Some (isoNow e)\<rparr>
                         in saveConversation e c (st\<lparr>currentConversation := Some c\<rparr>)
                    else st);
          st = st\<lparr>isConversationActive := False\<rparr>;
          st = stopListening e st;
          st = st\<lparr>currentConversation := None\<rparr>
      in showSuccess ''Conversation ended and saved to history'' st)"

text \<open>
  \<^verbatim>\<open>loadHistory\<close> is one \<^verbatim>\<open>try\<close> block with a handler. The block is modelled by the state
  at the point where control leaves it, together with the exception when it leaves by a
  throw; the handler then empties both history lists. The method hands its caller either
  an exception (\<^const>\<open>Inl\<close>) or the state it returns with (\<^const>\<open>Inr\<close>).

  The block reads and parses the history, assigns it, reads and parses the active
  conversation, assigns it when there is one, and copies the history into the filtered
  list last. A history that is no array is in the field from the assignment to the
  handler only; the model leaves the field as it was for that while.
\<close>

definition loadHistory_try :: "env \<Rightarrow> tutor \<Rightarrow> tutor \<times> exn option" where
  "loadHistory_try e st =
     (if getItemThrows e then (st, Some SecurityError)
      else case historyItem (localStorage st) of
        Unparseable \<Rightarrow> (st, Some SyntaxError)
      | saved \<Rightarrow>
          (let parsed = (case saved of Parses v \<Rightarrow> v | _ \<Rightarrow> Conversations []);
               st = (case parsed of
                       Conversations h \<Rightarrow> st\<lparr>conversationHistory := h\<rparr>
                     | NotIterable \<Rightarrow> st)
           in case currentItem (localStorage st) of
                Unparseable \<Rightarrow> (st, Some SyntaxError)
              | current \<Rightarrow>
                  (let st = (case current of
                               Parses c \<Rightarrow>
                                 st\<lparr>currentConversation := Some c, isConversationActive := True\<rparr>
                             | _ \<Rightarrow> st)
                   in case parsed of
                        Conversations h \<Rightarrow> (st\<lparr>filteredHistory := conversationHistory st\<rparr>, None)
                      | NotIterable \<Rightarrow> (st, Some TypeError))))"

definition loadHistory :: "env \<Rightarrow> tutor \<Rightarrow> exn + tutor" where
  "loadHistory e st =
     (case loadHistory_try e st of
        (st, None) \<Rightarrow> Inr st
      | (st, Some err) \<Rightarrow> Inr (st\<lparr>conversationHistory := [], filteredHistory := []\<rparr>))"

section \<open>Derived statistics\<close>

definition round_js :: "rat \<Rightarrow> int" where
  \<comment> \<open>\<^verbatim>\<open>Math.round\<close>: the nearest integer, a tie going up\<close>
  "round_js x = \<lfloor>x + 1 / 2\<rfloor>"

definition scoreOrZero :: "message \<Rightarrow> int" where
  \<comment> \<open>\<^verbatim>\<open>m.pronunciationScore || 0\<close>\<close>
  "scoreOrZero m = (case pronunciationScore m of None \<Rightarrow> 0 | Some s \<Rightarrow> s)"

definition getAveragePronunciationScore :: "conversation \<Rightarrow> int" where
  "getAveragePronunciationScore conv =
     (let users = filter (\<lambda>m. type_m m = ''user'') (messages conv)
      in if users = [] then 0
         else let total = foldl (\<lambda>s m. s + scoreOrZero m) 0 users
              in round_js (of_int total / of_nat (length users)))"

section \<open>Startup state, runs of operations and sample inputs\<close>

definition initialTutor :: "bool \<Rightarrow> storage \<Rightarrow> tutor" where
  \<comment> \<open>the field initialisers of the class; the browser decides whether speech synthesis
      exists and what the storage holds\<close>
  "initialTutor speech store =
     \<lparr>currentMode = ''conversation'', isListening = False, isSpeaking = False,
      isConversationActive = False, conversationStatus = ''idle'',
      currentConversation = None, conversationHistory = [], filteredHistory = [],
      selectedHistoryConversation = None, searchQuery = [], selectedTopic = ''daily-life'',
      errorMessage = [], successMessage = [], recognition = False, synthesis = speech,
      recording = False, localStorage = store\<rparr>"

definition closed :: "env \<times> conversation \<Rightarrow> conversation" where
  \<comment> \<open>the record \<^verbatim>\<open>saveConversation\<close> puts into the history: the end time is set if it was not\<close>
  "closed = (\<lambda>(e, conv). conv\<lparr>endTime := orNow (endTime conv) (isoNow e)\<rparr>)"

fun saveAll :: "(env \<times> conversation) list \<Rightarrow> tutor \<Rightarrow> tutor" where
  \<comment> \<open>a sequence of calls of \<^verbatim>\<open>saveConversation\<close>, the first of the list first\<close>
  "saveAll [] st = st"
| "saveAll ((e, conv) # rest) st = saveAll rest (saveConversation e conv st)"

definition quietEnv :: env where
  "quietEnv =
     \<lparr>isoNow = ''2025-01-01T10:00:00.000Z'', msNow = ''1735725600000'', random = 1 / 2,
      getItemThrows = False, setItemThrows = False, removeItemThrows = False,
      deviceThrows = False, errorText = []\<rparr>"

definition emptyStore :: storage where
  "emptyStore = \<lparr>historyItem = Absent, currentItem = Absent\<rparr>"

definition sampleConversation :: conversation where
  "sampleConversation =
     \<lparr>id_c = ''1735722000000'', startTime = ''2025-01-01T09:00:00.000Z'', endTime = None,
      topic = ''food'', difficulty = ''beginner'',
      messages = [aiMessage quietEnv ''Hello! Let's chat about food. What's your favorite cuisine?''],
      audioRecordings = []\<rparr>"

definition fullTutor :: tutor where
  \<comment> \<open>a component whose history holds fifty conversations\<close>
  "fullTutor = (initialTutor True emptyStore)\<lparr>conversationHistory := replicate 50 sampleConversation\<rparr>"

definition freshTutor :: tutor where
  \<comment> \<open>a current conversation that has no message yet\<close>
  "freshTutor = (initialTutor True emptyStore)
     \<lparr>currentConversation := Some (newConversation quietEnv (initialTutor True emptyStore)),
      isConversationActive := True\<rparr>"

definition talkingTutor :: tutor where
  \<comment> \<open>a current conversation with one message\<close>
  "talkingTutor = (initialTutor True emptyStore)
     \<lparr>currentConversation := Some sampleConversation, isConversationActive := True\<rparr>"

definition archivedSample :: conversation where
  "archivedSample = closed (quietEnv, sampleConversation)"

definition historyOnlyStore :: storage where
  "historyOnlyStore =
     \<lparr>historyItem = Parses (Conversations [archivedSample]), currentItem = Absent\<rparr>"

definition currentOnlyStore :: storage where
  "currentOnlyStore = \<lparr>historyItem = Absent, currentItem = Parses sampleConversation\<rparr>"

definition brokenCurrentStore :: storage where
  "brokenCurrentStore =
     \<lparr>historyItem = Parses (Conversations [archivedSample]), currentItem = Unparseable\<rparr>"

definition brokenHistoryStore :: storage where
  "brokenHistoryStore =
     \<lparr>historyItem = Unparseable, currentItem = Parses sampleConversation\<rparr>"

definition withScoreOrZero :: "message \<Rightarrow> message" where
  \<comment> \<open>the message with a missing score written out as 0\<close>
  "withScoreOrZero m = m\<lparr>pronunciationScore := Some (scoreOrZero m)\<rparr>"

definition foodPool :: "string list" where
  \<comment> \<open>the entry of \<^const>\<open>responses\<close> for the topic \<^verbatim>\<open>food\<close>\<close>
  "foodPool =
     [''That sounds delicious! How often do you eat that?'',
      ''Can you cook it yourself? What's the recipe?'',
      ''What other dishes do you enjoy from that cuisine?'',
      ''Have you tried making it at home? How did it turn out?'']"

section \<open>Properties of the assessment engine\<close>

text \<open>
  The two string searches agree with the library's notions of a prefix and of a
  contiguous sublist.
\<close>

lemma startsWith_prefix: "startsWith s p = prefix p s"
  by (induction s p rule: startsWith.induct) auto

lemma includes_sublist: "includes_str s p = sublist p s"
  by (induction s) (simp_all add: startsWith_prefix sublist_Cons_right)

lemma clamp_bounds: "0 \<le> max 0 (min 100 (x::int)) \<and> max 0 (min 100 x) \<le> 100"
  by simp

lemma isSpace_not_word: "isSpace c \<Longrightarrow> \<not> isWordChar c"
  by (auto simp: isSpace_def isWordChar_def Let_def)

lemma isSpace_lower: "isSpace c \<Longrightarrow> toLowerChar c = c"
  by (auto simp: isSpace_def toLowerChar_def Let_def)

lemma includes_hd: "includes_str s p \<Longrightarrow> p \<noteq> [] \<Longrightarrow> hd p \<in> set s"
proof (induction s)
  case Nil
  then show ?case by simp
next
  case (Cons c cs)
  then show ?case by (cases p) auto
qed

lemma blank_trim: "\<forall>c\<in>set s. isSpace c \<Longrightarrow> trim s = []"
  by (auto simp: trim_def dropWhile_eq_Nil_conv dest: set_dropWhileD)

lemma blank_no_complex: "\<forall>c\<in>set s. isSpace c \<Longrightarrow> matchComplexWords prev s = []"
proof (induction s arbitrary: prev)
  case Nil
  then show ?case by simp
next
  case (Cons c cs)
  then have "complexWordAt prev (c # cs) = None"
    by (simp add: complexWordAt_def isSpace_not_word)
  with Cons show ?case by simp
qed

lemma blank_lower: "\<forall>c\<in>set s. isSpace c \<Longrightarrow> toLowerCase s = s"
  by (induction s) (simp_all add: toLowerCase_def isSpace_lower)

lemma blank_excludes:
  assumes "\<forall>c\<in>set s. isSpace c" and "p \<noteq> []" and "\<not> isSpace (hd p)"
  shows "\<not> includes_str s p"
  using assms includes_hd by blast

text \<open>
  \<^bold>\<open>C1\<close>, as the specification states it: for the text \<^verbatim>\<open>he go to school\<close> the correction
  is the advisory of the agreement rule for he, she, it. The code does not do that: the
  table is searched first, its entry \<^verbatim>\<open>he go\<close> is a substring of the text, and the
  suggestion of that entry is returned before any rule is tried.
\<close>

theorem he_go_not_advisory:
  "generateCorrection ''he go to school''
     \<noteq> Some ''Remember: Use 'goes' with he, she, it. Use 'go' with I, you, we, they.''"
  by code_simp

text \<open>
  \<^bold>\<open>C1\<close>, amended: for the text \<^verbatim>\<open>he go to school\<close> the correction is the suggestion of
  the table entry \<^verbatim>\<open>he go\<close>, the first entry that is a substring of the lower-cased text.
  The advisory of the agreement rule for he, she, it is what a text gets that no table
  entry matches, such as \<^verbatim>\<open>it go to school\<close>.
\<close>

theorem he_go_table_suggestion:
  "generateCorrection ''he go to school'' = Some ''Did you mean: 'he goes'?'' \<and>
   find (\<lambda>(bad, good). includes_str (toLowerCase ''he go to school'') bad) corrections
     = Some (''he go'', ''he goes'') \<and>
   generateCorrection ''it go to school''
     = Some ''Remember: Use 'goes' with he, she, it. Use 'go' with I, you, we, they.''"
  by code_simp

text \<open>
  \<^bold>\<open>C2\<close>: for every text, the empty one and texts that earn every bonus or the penalty
  included, the pronunciation score is an integer between 0 and 100.
\<close>

theorem assessPronunciation_range:
  "0 \<le> assessPronunciation text \<and> assessPronunciation text \<le> 100"
  unfolding assessPronunciation_def Let_def by (rule clamp_bounds)

text \<open>
  \<^bold>\<open>C9\<close>: for a text that is empty or made of whitespace only the pronunciation score is
  exactly 50. Trimming leaves the empty text, which splits into one empty piece, so the
  word count is 1: the penalty of 20 for fewer than three words applies to the base of 70
  and no bonus does.
\<close>

theorem assessPronunciation_blank:
  assumes "\<forall>c\<in>set text. isSpace c"
  shows "assessPronunciation text = 50 \<and> length (splitWhitespace [] (trim text)) = 1"
proof -
  have wc: "length (splitWhitespace [] (trim text)) = 1"
    using assms by (simp add: blank_trim)
  have cw: "matchComplex text = None"
    using assms by (simp add: matchComplex_def blank_no_complex)
  have comma: "\<not> includes_str text '',''"
    using assms by (intro blank_excludes) (simp_all add: isSpace_def)
  have period: "\<not> includes_str text ''.''"
    using assms by (intro blank_excludes) (simp_all add: isSpace_def)
  have sounds: "filter (\<lambda>s. includes_str (toLowerCase text) s) challengingSounds = []"
  proof -
    have "\<not> includes_str text p" if "p \<in> set challengingSounds" for p
      using assms that by (intro blank_excludes) (auto simp: challengingSounds_def isSpace_def)
    then show ?thesis using assms by (simp add: blank_lower filter_empty_conv)
  qed
  have "assessPronunciation text = 50"
    unfolding assessPronunciation_def Let_def wc cw sounds
    using comma period by simp
  then show ?thesis using wc by simp
qed

theorem assessPronunciation_blank_witness:
  "isSpace (CHR 0x20) \<and> isSpace (CHR 0x09) \<and> isSpace (CHR 0x0A) \<and> isSpace (CHR 0xA0) \<and>
   assessPronunciation [CHR 0x20, CHR 0x09, CHR 0x0A, CHR 0xA0] = 50 \<and>
   assessPronunciation [] = 50"
  using assessPronunciation_blank [of "[CHR 0x20, CHR 0x09, CHR 0x0A, CHR 0xA0]"]
    assessPronunciation_blank [of "[]"]
  by (simp add: isSpace_def)

section \<open>Properties of the conversation store\<close>

lemma history_saveConversation:
  "conversationHistory (saveConversation e conv st)
     = take 50 (closed (e, conv) # conversationHistory st)"
  by (simp add: saveConversation_def closed_def Let_def showError_def setHistoryItem_def
        setCurrentItem_def)

lemma take_append_take: "take n (xs @ take n ys) = take n (xs @ ys)"
  by (induction xs arbitrary: n) (auto simp: take_Cons split: nat.splits)

lemma history_saveAll_take:
  "take 50 (conversationHistory (saveAll ops st))
     = take 50 (rev (map closed ops) @ conversationHistory st)"
proof (induction ops arbitrary: st)
  case Nil
  then show ?case by simp
next
  case (Cons a ops)
  obtain e conv where a: "a = (e, conv)" by (cases a)
  have "take 50 (conversationHistory (saveAll (a # ops) st))
          = take 50 (rev (map closed ops) @ take 50 (closed a # conversationHistory st))"
    using Cons.IH [of "saveConversation e conv st"]
    by (simp only: a saveAll.simps history_saveConversation)
  also have "\<dots> = take 50 (rev (map closed ops) @ (closed a # conversationHistory st))"
    by (rule take_append_take)
  also have "rev (map closed ops) @ (closed a # conversationHistory st)
               = rev (map closed (a # ops)) @ conversationHistory st"
    by simp
  finally show ?case .
qed

lemma history_saveAll_length:
  "length (conversationHistory st) \<le> 50
     \<Longrightarrow> length (conversationHistory (saveAll ops st)) \<le> 50"
proof (induction ops arbitrary: st)
  case Nil
  then show ?case by simp
next
  case (Cons a ops)
  obtain e conv where a: "a = (e, conv)" by (cases a)
  show ?case using Cons.IH [of "saveConversation e conv st"]
    by (simp add: a history_saveConversation)
qed

text \<open>
  \<^bold>\<open>C3\<close>: after any sequence of archival operations (one call of \<^verbatim>\<open>saveConversation\<close> or
  more, from any state) the history has at most 50 entries; it is the conversations just
  archived, the latest first, in front of the earlier history, cut to the first 50; and
  when the history is full, one more archival drops its last, oldest entry.
\<close>

theorem history_capped_recent_first:
  "length (conversationHistory (saveAll (a # ops) st)) \<le> 50 \<and>
   conversationHistory (saveAll (a # ops) st)
     = take 50 (rev (map closed (a # ops)) @ conversationHistory st) \<and>
   (length (conversationHistory st) = 50 \<longrightarrow>
      conversationHistory (saveConversation e conv st)
        = closed (e, conv) # butlast (conversationHistory st))"
proof -
  obtain e' conv' where a: "a = (e', conv')" by (cases a)
  have len: "length (conversationHistory (saveAll (a # ops) st)) \<le> 50"
    using history_saveAll_length [of "saveConversation e' conv' st" ops]
    by (simp add: a history_saveConversation)
  have "conversationHistory (saveAll (a # ops) st)
          = take 50 (conversationHistory (saveAll (a # ops) st))"
    using len by simp
  then have eq: "conversationHistory (saveAll (a # ops) st)
                   = take 50 (rev (map closed (a # ops)) @ conversationHistory st)"
    using history_saveAll_take [of "a # ops" st] by simp
  have "take 49 xs = butlast xs" if "length xs = 50" for xs :: "conversation list"
    using that by (simp add: butlast_conv_take)
  then have ev: "length (conversationHistory st) = 50 \<longrightarrow>
      conversationHistory (saveConversation e conv st)
        = closed (e, conv) # butlast (conversationHistory st)"
    by (simp add: history_saveConversation)
  show ?thesis using len eq ev by blast
qed

theorem history_capped_recent_first_witness:
  "length (conversationHistory fullTutor) = 50 \<and>
   conversationHistory (saveConversation quietEnv sampleConversation fullTutor)
     = closed (quietEnv, sampleConversation) # butlast (conversationHistory fullTutor) \<and>
   length (conversationHistory (saveAll [(quietEnv, sampleConversation)] fullTutor)) \<le> 50"
proof -
  have full: "length (conversationHistory fullTutor) = 50"
    by (simp add: fullTutor_def)
  from full history_capped_recent_first
    [where a = "(quietEnv, sampleConversation)" and ops = "[]" and st = fullTutor
       and e = quietEnv and conv = sampleConversation]
  show ?thesis by blast
qed

text \<open>
  \<^bold>\<open>C4\<close>: \<^verbatim>\<open>endConversation\<close> on a current conversation without messages leaves the
  history, in memory and in the storage, as it was; a current conversation with at least
  one message gets its end time and is put in front of the history. Either way no
  current conversation is left.
\<close>

theorem endConversation_archives_nonempty_only:
  assumes "currentConversation st = Some c"
  shows "(messages c = [] \<longrightarrow>
            conversationHistory (endConversation e st) = conversationHistory st \<and>
            localStorage (endConversation e st) = localStorage st) \<and>
         (messages c \<noteq> [] \<longrightarrow>
            conversationHistory (endConversation e st)
              = take 50 (c\<lparr>endTime := Some (isoNow e)\<rparr> # conversationHistory st)) \<and>
         currentConversation (endConversation e st) = None"
  using assms
  by (simp add: endConversation_def Let_def showSuccess_def stopListening_def updateStatus_def
        history_saveConversation closed_def orNow_def)

theorem endConversation_archives_nonempty_only_witness:
  "conversationHistory (endConversation quietEnv freshTutor) = [] \<and>
   conversationHistory (endConversation quietEnv talkingTutor)
     = [sampleConversation\<lparr>endTime := Some ''2025-01-01T10:00:00.000Z''\<rparr>]"
proof -
  have a: "currentConversation freshTutor
             = Some (newConversation quietEnv (initialTutor True emptyStore))"
    by (simp add: freshTutor_def)
  have b: "currentConversation talkingTutor = Some sampleConversation"
    by (simp add: talkingTutor_def)
  have c: "messages (newConversation quietEnv (initialTutor True emptyStore)) = []"
    by (simp add: newConversation_def)
  have d: "messages sampleConversation \<noteq> []"
    by (simp add: sampleConversation_def)
  have e: "conversationHistory freshTutor = []" "conversationHistory talkingTutor = []"
    by (simp_all add: freshTutor_def talkingTutor_def initialTutor_def)
  show ?thesis
    using endConversation_archives_nonempty_only [OF a, of quietEnv]
      endConversation_archives_nonempty_only [OF b, of quietEnv] c d e
    by (simp add: quietEnv_def)
qed

text \<open>
  \<^bold>\<open>C5\<close>: the component has one slot for the active conversation.
  \<^verbatim>\<open>startNewConversation\<close> fills it with a new record, which holds the greeting as its only
  message; nothing of the state it returns depends on the conversation that was in the
  slot before, and the history, in memory and in the storage, stays as it was: the prior
  conversation is not archived.
\<close>

theorem startNewConversation_replaces_current:
  "currentConversation (startNewConversation e st)
     = Some (pushMessage (aiMessage e (generateGreeting st)) (newConversation e st)) \<and>
   conversationHistory (startNewConversation e st) = conversationHistory st \<and>
   historyItem (localStorage (startNewConversation e st)) = historyItem (localStorage st) \<and>
   startNewConversation e (st\<lparr>currentConversation := prior\<rparr>) = startNewConversation e st"
  by (simp add: startNewConversation_def Let_def addAIMessage_def speakResponse_def
        saveCurrentConversation_def setCurrentItem_def showSuccess_def updateStatus_def
        generateGreeting_def newConversation_def)

text \<open>
  \<^bold>\<open>C6\<close>: \<^verbatim>\<open>loadHistory\<close> never raises to its caller, whatever the storage holds and
  whether or not it can be read. At startup, when there is no active conversation yet, a
  stored history that is missing or unparseable gives an empty history list, and a stored
  active conversation that is missing or unparseable gives no active conversation. When
  either of the two is unparseable, when the storage cannot be read, or when both are
  missing, the result is both: an empty history list and no active conversation.
\<close>

theorem loadHistory_missing_or_corrupt:
  "\<exists>st'. loadHistory e st = Inr st' \<and>
     (currentConversation st = None \<and> \<not> isConversationActive st \<longrightarrow>
        (historyItem (localStorage st) = Absent \<or> historyItem (localStorage st) = Unparseable
           \<longrightarrow> conversationHistory st' = [] \<and> filteredHistory st' = []) \<and>
        (currentItem (localStorage st) = Absent \<or> currentItem (localStorage st) = Unparseable
           \<longrightarrow> currentConversation st' = None \<and> \<not> isConversationActive st') \<and>
        (getItemThrows e \<or> historyItem (localStorage st) = Unparseable
           \<or> currentItem (localStorage st) = Unparseable
           \<or> (historyItem (localStorage st) = Absent \<and> currentItem (localStorage st) = Absent)
           \<longrightarrow> conversationHistory st' = [] \<and> filteredHistory st' = [] \<and>
               currentConversation st' = None \<and> \<not> isConversationActive st'))"
proof (cases "historyItem (localStorage st)")
  case Absent
  then show ?thesis
    by (cases "currentItem (localStorage st)")
       (simp_all add: loadHistory_def loadHistory_try_def Let_def)
next
  case Unparseable
  then show ?thesis
    by (simp add: loadHistory_def loadHistory_try_def Let_def)
next
  case (Parses v)
  then show ?thesis
    by (cases v; cases "currentItem (localStorage st)")
       (simp_all add: loadHistory_def loadHistory_try_def Let_def)
qed

theorem loadHistory_missing_or_corrupt_witness:
  "(\<exists>st'. loadHistory quietEnv (initialTutor True emptyStore) = Inr st' \<and>
      conversationHistory st' = [] \<and> currentConversation st' = None) \<and>
   (\<exists>st'. loadHistory quietEnv (initialTutor True brokenCurrentStore) = Inr st' \<and>
      conversationHistory st' = [] \<and> currentConversation st' = None) \<and>
   (\<exists>st'. loadHistory quietEnv (initialTutor True brokenHistoryStore) = Inr st' \<and>
      conversationHistory st' = [] \<and> currentConversation st' = None) \<and>
   (\<exists>st'. loadHistory quietEnv (initialTutor True historyOnlyStore) = Inr st' \<and>
      currentConversation st' = None) \<and>
   (\<exists>st'. loadHistory quietEnv (initialTutor True currentOnlyStore) = Inr st' \<and>
      conversationHistory st' = [])"
proof -
  have n: "currentConversation (initialTutor True s) = None \<and>
           \<not> isConversationActive (initialTutor True s)" for s
    by (simp add: initialTutor_def)
  have s: "localStorage (initialTutor True s) = s" for s
    by (simp add: initialTutor_def)
  show ?thesis
    using loadHistory_missing_or_corrupt [of quietEnv "initialTutor True emptyStore"]
      loadHistory_missing_or_corrupt [of quietEnv "initialTutor True brokenCurrentStore"]
      loadHistory_missing_or_corrupt [of quietEnv "initialTutor True brokenHistoryStore"]
      loadHistory_missing_or_corrupt [of quietEnv "initialTutor True historyOnlyStore"]
      loadHistory_missing_or_corrupt [of quietEnv "initialTutor True currentOnlyStore"]
    by (auto simp: n s emptyStore_def brokenCurrentStore_def brokenHistoryStore_def
          historyOnlyStore_def currentOnlyStore_def)
qed

text \<open>
  What a snapshot that parses is restored to: an array of conversations becomes the
  history, and a history that is no array ends, through the handler, as the empty
  history beside the active conversation that was restored before the throw.
\<close>

lemma loadHistory_restores:
  assumes "\<not> getItemThrows e"
    and "historyItem (localStorage st) = Parses (Conversations h)"
    and "currentItem (localStorage st) = Parses c"
  shows "loadHistory e st
           = Inr (st\<lparr>conversationHistory := h, currentConversation := Some c,
                     isConversationActive := True, filteredHistory := h\<rparr>)"
  using assms by (simp add: loadHistory_def loadHistory_try_def Let_def)

lemma loadHistory_history_no_array:
  assumes "\<not> getItemThrows e"
    and "historyItem (localStorage st) = Parses NotIterable"
    and "currentItem (localStorage st) = Parses c"
  shows "loadHistory e st
           = Inr (st\<lparr>currentConversation := Some c, isConversationActive := True,
                     conversationHistory := [], filteredHistory := []\<rparr>)"
  using assms by (simp add: loadHistory_def loadHistory_try_def Let_def)

section \<open>Properties of the replies\<close>

lemma pick_in_pool:
  assumes "0 \<le> random e" and "random e < 1" and "pool \<noteq> []"
  shows "\<exists>r \<in> set pool. pick e pool = Some r"
proof -
  let ?n = "length pool"
  let ?i = "\<lfloor>random e * of_nat ?n\<rfloor>"
  have "0 \<le> random e * of_nat ?n" using assms by simp
  then have lo: "0 \<le> ?i" by simp
  have "random e * of_nat ?n < of_nat ?n" using assms by simp
  then have hi: "?i < int ?n" by (simp add: floor_less_iff)
  have "nat ?i < ?n" using lo hi by linarith
  then have m: "pool ! nat ?i \<in> set pool" by simp
  have "pick e pool = Some (pool ! nat ?i)"
    using lo hi by (simp add: pick_def Let_def)
  with m show ?thesis by blast
qed

lemma love_words: "splitOnChar (CHR '' '') [] ''I love it'' = [''I'', ''love'', ''it'']"
  by simp

lemma love_no_question: "\<not> includes_str ''I love it'' ''?''"
  by simp

lemma love_no_correction: "generateCorrection ''I love it'' = None"
  by code_simp

lemma love_no_entry:
  "find (\<lambda>(bad, good). includes_str (toLowerCase ''I love it'') bad) corrections = None"
  by code_simp

lemma love_no_rule:
  "\<not> agreementTest [''i'', ''you'', ''we'', ''they''] ''goes'' None (toLowerCase ''I love it'') \<and>
   \<not> agreementTest [''he'', ''she'', ''it''] ''go'' None (toLowerCase ''I love it'')"
  by code_simp

lemma food_pool: "map_of responses ''food'' = Some foodPool"
  by (simp add: responses_def foodPool_def)

text \<open>
  \<^bold>\<open>C8\<close>: with the topic \<^verbatim>\<open>food\<close> and the transcript \<^verbatim>\<open>I love it\<close>, which has three words
  and no question mark, the reply is the prompt for elaboration followed by the sentence
  drawn from the pool of the topic, whatever is drawn; a random number in \<open>[0, 1)\<close> draws
  a sentence of the pool. The transcript gets no correction: no table entry is a
  substring of the lower-cased transcript and neither agreement rule matches it.
\<close>

theorem food_short_reply:
  "generateAIResponse e (st\<lparr>selectedTopic := ''food''\<rparr>) ''I love it''
     = Some (''I see. Could you tell me more? '' @ toText (pick e foodPool)) \<and>
   (0 \<le> random e \<and> random e < 1 \<longrightarrow> (\<exists>r \<in> set foodPool. pick e foodPool = Some r)) \<and>
   length (splitOnChar (CHR '' '') [] ''I love it'') = 3 \<and>
   \<not> includes_str ''I love it'' ''?'' \<and>
   generateCorrection ''I love it'' = None \<and>
   find (\<lambda>(bad, good). includes_str (toLowerCase ''I love it'') bad) corrections = None \<and>
   \<not> agreementTest [''i'', ''you'', ''we'', ''they''] ''goes'' None (toLowerCase ''I love it'') \<and>
   \<not> agreementTest [''he'', ''she'', ''it''] ''go'' None (toLowerCase ''I love it'')"
proof -
  have reply: "generateAIResponse e (st\<lparr>selectedTopic := ''food''\<rparr>) ''I love it''
     = Some (''I see. Could you tell me more? '' @ toText (pick e foodPool))"
    by (simp add: generateAIResponse_def Let_def food_pool)
  have drawn: "0 \<le> random e \<and> random e < 1 \<longrightarrow> (\<exists>r \<in> set foodPool. pick e foodPool = Some r)"
    using pick_in_pool [of e foodPool] by (simp add: foodPool_def)
  have count: "length (splitOnChar (CHR '' '') [] ''I love it'') = 3"
    by (simp only: love_words) simp
  from reply drawn count love_no_question love_no_correction love_no_entry love_no_rule
  show ?thesis by blast
qed

theorem food_short_reply_witness:
  "generateAIResponse quietEnv ((initialTutor True emptyStore)\<lparr>selectedTopic := ''food''\<rparr>)
     ''I love it''
     = Some ''I see. Could you tell me more? What other dishes do you enjoy from that cuisine?''"
proof -
  have r: "0 \<le> random quietEnv \<and> random quietEnv < 1"
    by (simp add: quietEnv_def)
  have p: "pick quietEnv foodPool = Some ''What other dishes do you enjoy from that cuisine?''"
    by (simp add: pick_def quietEnv_def foodPool_def Let_def)
  show ?thesis using food_short_reply [of quietEnv "initialTutor True emptyStore"] r p
    by (simp add: toText_def)
qed

section \<open>Properties of the derived statistics\<close>

lemma total_withScoreOrZero:
  "foldl (\<lambda>s m. s + scoreOrZero m) a (map withScoreOrZero ms)
     = foldl (\<lambda>s m. s + scoreOrZero m) a ms"
  by (induction ms arbitrary: a) (simp_all add: withScoreOrZero_def scoreOrZero_def)

lemma users_withScoreOrZero:
  "filter (\<lambda>m. type_m m = ''user'') (map withScoreOrZero ms)
     = map withScoreOrZero (filter (\<lambda>m. type_m m = ''user'') ms)"
  by (induction ms) (simp_all add: withScoreOrZero_def)

text \<open>
  \<^bold>\<open>C10\<close>: for a conversation without a message of the user, the empty conversation
  included, the average pronunciation score is 0 and nothing is divided. A message of
  the user without a score counts as one with the score 0: writing the missing scores out
  as 0 leaves the average as it is.
\<close>

theorem average_without_user_messages:
  "(filter (\<lambda>m. type_m m = ''user'') (messages conv) = []
      \<longrightarrow> getAveragePronunciationScore conv = 0) \<and>
   getAveragePronunciationScore (conv\<lparr>messages := map withScoreOrZero (messages conv)\<rparr>)
     = getAveragePronunciationScore conv"
  by (simp add: getAveragePronunciationScore_def Let_def users_withScoreOrZero
        total_withScoreOrZero)

theorem average_without_user_messages_witness:
  "getAveragePronunciationScore sampleConversation = 0 \<and>
   getAveragePronunciationScore (newConversation quietEnv (initialTutor True emptyStore)) = 0"
  using average_without_user_messages [of sampleConversation]
    average_without_user_messages [of "newConversation quietEnv (initialTutor True emptyStore)"]
  by (simp add: sampleConversation_def newConversation_def aiMessage_def)

end
